theory Spec2Isabelle
  imports Main "HOL-Library.Word"
begin

section \<open>The topology model (types.go)\<close>

text \<open>
  The structs of \<^verbatim>\<open>types.go\<close> as records, with the field names of the source; a field
  name that several structs share is written qualified (\<open>Cluster.Name\<close>,
  \<open>RackState.Name\<close>). A \<^verbatim>\<open>float64\<close> is only ever copied by this program, so
  it is held as its 64-bit IEEE pattern. A slice is a list (\<^verbatim>\<open>nil\<close> and the empty slice
  are both \<open>[]\<close>, as \<^verbatim>\<open>len\<close>, \<^verbatim>\<open>range\<close> and \<^verbatim>\<open>append\<close> do not
  tell them apart). A map that the program builds is a partial function; a map that the
  program iterates over (the decoded payload) is the list of its entries in the order in
  which the \<^verbatim>\<open>range\<close> loop visits them, the keys of one map being distinct.
\<close>

type_synonym float64 = "64 word"

record EndpointState =
  Endpoint :: string
  DataCenter :: string
  Rack :: string
  HostId :: string
  Status :: string
  Severity :: float64
  ReleaseVersion :: string
  Tokens :: string
  Load :: float64

record RackState =
  Name :: string
  Endpoints :: "EndpointState list"

record DataCenterState =
  Name :: string
  Racks :: "string \<rightharpoonup> RackState"

record GossipState =
  SourceNode :: string
  EndpointNames :: "string list"
  TotalLoad :: float64
  DataCenters :: "string \<rightharpoonup> DataCenterState"

record NodeState =
  GossipStates :: "GossipState list"

record Cluster =
  Name :: string
  JmxUsername :: string
  JmxPasswordSet :: bool
  Seeds :: "string list"
  NodeState :: NodeState

text \<open>The internal types that the JSON body of a cluster status is decoded into.\<close>

record endpointStatus =
  Endpoint :: string
  DataCenter :: string
  Rack :: string
  HostId :: string
  Status :: string
  Severity :: float64
  ReleaseVersion :: string
  Tokens :: string
  Load :: float64

type_synonym ('k, 'v) entries = "('k \<times> 'v) list"

record gossipStatus =
  SourceNode :: string
  EndpointNames :: "string list"
  TotalLoad :: float64
  Endpoints :: "(string, (string, endpointStatus list) entries) entries"

record nodeStatus =
  EndpointStates :: "gossipStatus list"

record clusterStatus =
  Name :: string
  JmxUsername :: string
  JmxPasswordSet :: bool
  Seeds :: "string list"
  NodeStatus :: nodeStatus

section \<open>The topology translator (newCluster)\<close>

text \<open>The struct literal of lines 231-241: one endpoint, field by field.\<close>

definition newEndpointState :: "endpointStatus \<Rightarrow> EndpointState" where
  "newEndpointState ep =
     \<lparr>EndpointState.Endpoint = endpointStatus.Endpoint ep,
      EndpointState.DataCenter = endpointStatus.DataCenter ep,
      EndpointState.Rack = endpointStatus.Rack ep,
      EndpointState.HostId = endpointStatus.HostId ep,
      EndpointState.Status = endpointStatus.Status ep,
      EndpointState.Severity = endpointStatus.Severity ep,
      EndpointState.ReleaseVersion = endpointStatus.ReleaseVersion ep,
      EndpointState.Tokens = endpointStatus.Tokens ep,
      EndpointState.Load = endpointStatus.Load ep\<rparr>"

text \<open>The loop of lines 230-243 over the endpoints of one rack: each is appended.\<close>

fun rackLoop :: "RackState \<Rightarrow> endpointStatus list \<Rightarrow> RackState" where
  "rackLoop rackState [] = rackState"
| "rackLoop rackState (ep # endpoints) =
     rackLoop (rackState\<lparr>RackState.Endpoints :=
                 RackState.Endpoints rackState @ [newEndpointState ep]\<rparr>) endpoints"

text \<open>The loop of lines 228-245 over the racks of one datacenter.\<close>

fun dcLoop :: "DataCenterState \<Rightarrow> (string, endpointStatus list) entries \<Rightarrow> DataCenterState" where
  "dcLoop dcState [] = dcState"
| "dcLoop dcState ((rack, endpoints) # rest) =
     dcLoop (dcState\<lparr>Racks := (Racks dcState)
               (rack \<mapsto> rackLoop \<lparr>RackState.Name = rack, RackState.Endpoints = []\<rparr> endpoints)\<rparr>)
            rest"

text \<open>The loop of lines 226-247 over the datacenters that one source node reports.\<close>

fun gossipLoop ::
  "GossipState \<Rightarrow> (string, (string, endpointStatus list) entries) entries \<Rightarrow> GossipState" where
  "gossipLoop gossipState [] = gossipState"
| "gossipLoop gossipState ((dc, dcStateInternal) # rest) =
     gossipLoop (gossipState\<lparr>DataCenters := (DataCenters gossipState)
                   (dc \<mapsto> dcLoop \<lparr>DataCenterState.Name = dc, Racks = Map.empty\<rparr> dcStateInternal)\<rparr>)
                rest"

text \<open>The body of the outer loop, lines 220-247: the gossip state of one source node.\<close>

definition newGossipState :: "gossipStatus \<Rightarrow> GossipState" where
  "newGossipState gs =
     gossipLoop \<lparr>GossipState.SourceNode = gossipStatus.SourceNode gs,
                 GossipState.EndpointNames = gossipStatus.EndpointNames gs,
                 GossipState.TotalLoad = gossipStatus.TotalLoad gs,
                 DataCenters = Map.empty\<rparr>
                (gossipStatus.Endpoints gs)"

text \<open>The outer loop, lines 219-249: one gossip state is appended per source node.\<close>

fun clusterLoop :: "Cluster \<Rightarrow> gossipStatus list \<Rightarrow> Cluster" where
  "clusterLoop cluster [] = cluster"
| "clusterLoop cluster (gs # rest) =
     clusterLoop (cluster\<lparr>NodeState := (NodeState cluster)\<lparr>GossipStates :=
                     GossipStates (NodeState cluster) @ [newGossipState gs]\<rparr>\<rparr>) rest"

definition newCluster :: "clusterStatus \<Rightarrow> Cluster" where
  "newCluster state =
     clusterLoop \<lparr>Cluster.Name = clusterStatus.Name state,
                  Cluster.JmxUsername = clusterStatus.JmxUsername state,
                  Cluster.JmxPasswordSet = clusterStatus.JmxPasswordSet state,
                  Cluster.Seeds = clusterStatus.Seeds state,
                  NodeState = \<lparr>GossipStates = []\<rparr>\<rparr>
                 (EndpointStates (NodeStatus state))"







text \<open>An example payload: one source node, two datacenters of one rack each.\<close>

definition exampleEndpoint :: "string \<Rightarrow> string \<Rightarrow> string \<Rightarrow> endpointStatus" where
  "exampleEndpoint addr dc rack =
     \<lparr>endpointStatus.Endpoint = addr, endpointStatus.DataCenter = dc,
      endpointStatus.Rack = rack, endpointStatus.HostId = ''h'',
      endpointStatus.Status = ''NORMAL'', endpointStatus.Severity = 0,
      endpointStatus.ReleaseVersion = ''3.11.6'', endpointStatus.Tokens = ''13'',
      endpointStatus.Load = 0\<rparr>"

definition exampleStatus :: clusterStatus where
  "exampleStatus =
     \<lparr>clusterStatus.Name = ''test'', clusterStatus.JmxUsername = [],
      clusterStatus.JmxPasswordSet = False, clusterStatus.Seeds = [''10.0.0.1''],
      NodeStatus = \<lparr>EndpointStates =
        [\<lparr>gossipStatus.SourceNode = ''10.0.0.1'',
          gossipStatus.EndpointNames = [''10.0.0.1'', ''10.0.0.2'', ''10.0.1.1''],
          gossipStatus.TotalLoad = 0,
          gossipStatus.Endpoints =
            [(''dc1'', [(''r1'', [exampleEndpoint ''10.0.0.1'' ''dc1'' ''r1'',
                                 exampleEndpoint ''10.0.0.2'' ''dc1'' ''r1''])]),
             (''dc2'', [(''r1'', [exampleEndpoint ''10.0.1.1'' ''dc2'' ''r1''])])]\<rparr>]\<rparr>\<rparr>"

section \<open>Errors, requests and the world outside the client\<close>

text \<open>
  A Go \<^verbatim>\<open>error\<close> value. The two errors of package \<^verbatim>\<open>context\<close> are constructors of
  their own; an error that a library call returns is kept by its origin and message;
  \<open>Errorf prefix err\<close> is \<^verbatim>\<open>fmt.Errorf(prefix + ": %w", err)\<close>, which wraps
  \<open>err\<close>. A \<^verbatim>\<open>nil\<close> error is \<open>None\<close> of \<open>error option\<close>.
\<close>

datatype error =
    Canceled
  | DeadlineExceeded
  | RequestError string
  | TransportError string
  | DecodeError string
  | Errorf string error

fun Error_string :: "error \<Rightarrow> string" where
  "Error_string Canceled = ''context canceled''"
| "Error_string DeadlineExceeded = ''context deadline exceeded''"
| "Error_string (RequestError m) = m"
| "Error_string (TransportError m) = m"
| "Error_string (DecodeError m) = m"
| "Error_string (Errorf prefix err) = prefix @ '': '' @ Error_string err"

fun Unwrap :: "error \<Rightarrow> error option" where
  "Unwrap (Errorf prefix err) = Some err"
| "Unwrap err = None"

text \<open>
  A \<^verbatim>\<open>context.Context\<close>, as far as the client reads it: \<^verbatim>\<open>ctx.Err()\<close>, which is
  \<^verbatim>\<open>nil\<close> until the cancellation signal fires and the signal's reason from then on;
  the channel \<^verbatim>\<open>ctx.Done()\<close> is closed exactly when \<^verbatim>\<open>ctx.Err()\<close> is not
  \<^verbatim>\<open>nil\<close>.
\<close>

type_synonym Context = "error option"

definition ctx_Done :: "Context \<Rightarrow> bool" where
  "ctx_Done ctx = (ctx \<noteq> None)"

definition ctx_Err :: "Context \<Rightarrow> error option" where
  "ctx_Err ctx = ctx"

text \<open>
  An \<^verbatim>\<open>http.Request\<close>: the method, the URL string it was made from, the query of its
  URL and its header. The query is held in parsed form, as the \<^verbatim>\<open>url.Values\<close> that
  \<^verbatim>\<open>req.URL.Query()\<close> returns and that \<^verbatim>\<open>q.Encode()\<close> writes back to
  \<^verbatim>\<open>RawQuery\<close>: a map from a key to the list of its values, a key without an entry
  having the empty list.
\<close>

type_synonym Values = "string \<Rightarrow> string list"

record request =
  Method :: string
  URL :: string
  Query :: Values
  Header :: "string \<rightharpoonup> string"

record response =
  StatusCode :: nat
  Body :: string

text \<open>\<^verbatim>\<open>func (v Values) Add(key, value string)\<close>: appends to the values of the key.\<close>

definition Values_Add :: "Values \<Rightarrow> string \<Rightarrow> string \<Rightarrow> Values" where
  "Values_Add v key val = v(key := v key @ [val])"

text \<open>
  Everything the client calls but does not define, as parameters:
  \<^item> \<open>resolve p\<close> is \<^verbatim>\<open>c.BaseURL.ResolveReference(&url.URL{Path: p}).String()\<close>;
  \<^item> \<open>parseError u\<close> is the error with which \<^verbatim>\<open>http.NewRequest\<close> rejects the URL
    string \<open>u\<close>, if it does, and \<open>queryOf u\<close> the query of the URL otherwise;
  \<^item> \<open>httpDo req\<close> is \<^verbatim>\<open>c.httpClient.Do(req)\<close>: an error or a response;
  \<^item> \<open>decodeNames body v\<close> and \<open>decodeStatus body v\<close> are
    \<^verbatim>\<open>json.NewDecoder(body).Decode(&v)\<close> at the two types the client decodes into: the
    error, if any, and the value that the target holds afterwards;
  \<^item> \<open>NumCPU\<close> is \<^verbatim>\<open>runtime.NumCPU()\<close>.
\<close>

record env =
  resolve :: "string \<Rightarrow> string"
  parseError :: "string \<Rightarrow> error option"
  queryOf :: "string \<Rightarrow> Values"
  httpDo :: "request \<Rightarrow> error + response"
  decodeNames :: "string \<Rightarrow> string list \<Rightarrow> error option \<times> string list"
  decodeStatus :: "string \<Rightarrow> clusterStatus \<Rightarrow> error option \<times> clusterStatus"
  NumCPU :: nat

text \<open>
  \<^verbatim>\<open>http.NewRequest(method, url, nil)\<close> for the methods the client uses (the constants
  GET, PUT and DELETE, which are valid): it fails when the URL does not parse, and gives
  a request with the method, the parsed URL and an empty header otherwise.
\<close>

definition http_NewRequest :: "env \<Rightarrow> string \<Rightarrow> string \<Rightarrow> error + request" where
  "http_NewRequest env method url =
     (case parseError env url of
        Some err \<Rightarrow> Inl err
      | None \<Rightarrow> Inr \<lparr>Method = method, URL = url, Query = queryOf env url, Header = Map.empty\<rparr>)"

section \<open>The transport adapter and the single-resource operations\<close>

text \<open>
  \<^verbatim>\<open>Client.do\<close>, lines 188-208. The decode target \<^verbatim>\<open>v\<close> is a pointer that
  \<^verbatim>\<open>Decode\<close> writes through: the model takes the value it points to and returns the
  value it points to afterwards; \<open>decode\<close> is the decoder at the type of the target, and
  \<open>None\<close> for it is the call with \<^verbatim>\<open>v == nil\<close>. The result of
  \<^verbatim>\<open>req.WithContext(ctx)\<close> is discarded by the source, so the call has no effect.
  The pair of results is the pair of the source: a response or \<^verbatim>\<open>nil\<close>, an error
  or \<^verbatim>\<open>nil\<close>.
\<close>

definition do ::
  "env \<Rightarrow> Context \<Rightarrow> request \<Rightarrow> (string \<Rightarrow> 'v \<Rightarrow> error option \<times> 'v) option \<Rightarrow> 'v \<Rightarrow>
   (response option \<times> error option) \<times> 'v" where
  "do env ctx req decode v =
     (let req = req\<lparr>Header := (Header req)(''Accept'' \<mapsto> ''application/json'')\<rparr> in
      case httpDo env req of
        Inl err \<Rightarrow>
          if ctx_Done ctx then ((None, ctx_Err ctx), v) else ((None, Some err), v)
      | Inr resp \<Rightarrow>
          (case decode of
             None \<Rightarrow> ((Some resp, None), v)
           | Some dec \<Rightarrow> (let (err, v') = dec (Body resp) v in ((Some resp, err), v'))))"

text \<open>\<^verbatim>\<open>Client.GetClusterNames\<close>, lines 51-69.\<close>

definition GetClusterNames :: "env \<Rightarrow> Context \<Rightarrow> string list \<times> error option" where
  "GetClusterNames env ctx =
     (case http_NewRequest env ''GET'' (resolve env ''/cluster'') of
        Inl err \<Rightarrow> ([], Some err)
      | Inr req \<Rightarrow>
          (let ((resp, err), clusterNames) = do env ctx req (Some (decodeNames env)) [] in
           case err of
             Some e \<Rightarrow> ([], Some (Errorf ''failed to get cluster names'' e))
           | None \<Rightarrow> (clusterNames, None)))"

text \<open>The zero value of \<^verbatim>\<open>clusterStatus\<close>, which \<^verbatim>\<open>&clusterStatus{}\<close> points to.\<close>

definition zeroStatus :: clusterStatus where
  "zeroStatus =
     \<lparr>clusterStatus.Name = [], clusterStatus.JmxUsername = [],
      clusterStatus.JmxPasswordSet = False, clusterStatus.Seeds = [],
      NodeStatus = \<lparr>EndpointStates = []\<rparr>\<rparr>"

text \<open>
  \<^verbatim>\<open>Client.GetCluster\<close>, lines 71-91. The result is the pair of the source: a pointer
  to a cluster or \<^verbatim>\<open>nil\<close>, an error or \<^verbatim>\<open>nil\<close>.
\<close>

definition GetCluster :: "env \<Rightarrow> Context \<Rightarrow> string \<Rightarrow> Cluster option \<times> error option" where
  "GetCluster env ctx name =
     (case http_NewRequest env ''GET'' (resolve env (''/cluster/'' @ name)) of
        Inl err \<Rightarrow> (None, Some err)
      | Inr req \<Rightarrow>
          (let ((resp, err), clusterState) = do env ctx req (Some (decodeStatus env)) zeroStatus in
           case err of
             Some e \<Rightarrow> (None, Some (Errorf (''failed to get cluster ('' @ name @ '')'') e))
           | None \<Rightarrow> (Some (newCluster clusterState), None)))"

text \<open>
  \<^verbatim>\<open>Client.AddCluster\<close>: lines 141-152 build the request, lines 154-166 send it.
\<close>

definition AddCluster_request :: "env \<Rightarrow> string \<Rightarrow> string \<Rightarrow> error + request" where
  "AddCluster_request env cluster seed =
     (case http_NewRequest env ''PUT'' (resolve env (''/cluster/'' @ cluster)) of
        Inl err \<Rightarrow> Inl err
      | Inr req \<Rightarrow>
          (let req = req\<lparr>Header := (Header req)(''Accept'' \<mapsto> ''application/json'')\<rparr>;
               q = Query req;
               q = Values_Add q ''seedHost'' seed
           in Inr (req\<lparr>Query := q\<rparr>)))"

definition AddCluster :: "env \<Rightarrow> Context \<Rightarrow> string \<Rightarrow> string \<Rightarrow> error option" where
  "AddCluster env ctx cluster seed =
     (case AddCluster_request env cluster seed of
        Inl err \<Rightarrow> Some err
      | Inr req \<Rightarrow>
          (case httpDo env req of
             Inl err \<Rightarrow> if ctx_Done ctx then ctx_Err ctx else Some err
           | Inr resp \<Rightarrow> None))"

text \<open>\<^verbatim>\<open>Client.DeleteCluster\<close>, lines 169-186: \<^verbatim>\<open>do\<close> is called with a \<^verbatim>\<open>nil\<close> target.\<close>

definition DeleteCluster :: "env \<Rightarrow> Context \<Rightarrow> string \<Rightarrow> error option" where
  "DeleteCluster env ctx cluster =
     (case http_NewRequest env ''DELETE'' (resolve env (''/cluster/'' @ cluster)) of
        Inl err \<Rightarrow> Some err
      | Inr req \<Rightarrow>
          (let ((resp, err), u) = do env ctx req None () in
           case err of
             Some e \<Rightarrow> Some (Errorf (''failed to delete cluster ('' @ cluster @ '')'') e)
           | None \<Rightarrow> None))"

section \<open>The concurrent fetch of all clusters (GetClusters)\<close>

text \<open>The element type of the result channel: a pointer to a cluster and an error.\<close>

record GetClusterResult =
  Cluster :: "Cluster option"
  Error :: "error option"

text \<open>
  \<^verbatim>\<open>GetClusters\<close> starts one goroutine that ranges over the cluster names (the
  launcher, lines 108-120), and the launcher starts one goroutine per name (a worker, lines
  112-117). A worker holds its parameter \<^verbatim>\<open>name\<close> and is at one of four places: inside
  \<^verbatim>\<open>c.GetCluster(ctx, name)\<close> (line 114); at the send \<^verbatim>\<open>results <- result\<close>
  with its result (line 116); past the send, with the deferred \<^verbatim>\<open>wg.Done()\<close> still to
  run (line 113); or gone.
\<close>

datatype worker =
    Fetching string
  | Sending string GetClusterResult
  | Finishing string
  | Exited string


fun isFetching :: "worker \<Rightarrow> bool" where
  "isFetching (Fetching name) = True"
| "isFetching w = False"



text \<open>
  The state that the goroutines and the reader of the channel share:
  \<^item> \<open>clusterNames\<close>: the names that the launcher's loop (line 110) has still to visit;
  \<^item> \<open>workers\<close>: the workers, in the order in which the launcher started them;
  \<^item> \<open>wg\<close>: the counter of the \<^verbatim>\<open>sync.WaitGroup\<close>;
  \<^item> \<open>capacity\<close>, \<open>buffer\<close>, \<open>closed\<close>: the channel \<^verbatim>\<open>results\<close>;
  \<^item> \<open>received\<close>: the elements that the reader of the channel has received, in order;
  \<^item> \<open>panicked\<close>: a goroutine has panicked (a send on a closed channel, a negative
    counter of the wait group).
\<close>

record fanout =
  clusterNames :: "string list"
  workers :: "worker list"
  wg :: nat
  capacity :: nat
  buffer :: "GetClusterResult list"
  closed :: bool
  received :: "GetClusterResult list"
  panicked :: bool

text \<open>
  \<^verbatim>\<open>Client.GetClusters\<close>, lines 95-123: the state in which the call returns. When the
  name listing fails the channel is closed and no goroutine is started; otherwise the
  launcher is started with all the names before it.
  \<^verbatim>\<open>int(math.Min(5, float64(runtime.NumCPU())))\<close> is the smaller of 5 and the number
  of CPUs.
\<close>

definition GetClusters :: "env \<Rightarrow> Context \<Rightarrow> fanout" where
  "GetClusters env ctx =
     (let concurrency = min 5 (NumCPU env);
          results = \<lparr>clusterNames = [], workers = [], wg = 0, capacity = concurrency,
                     buffer = [], closed = False, received = [], panicked = False\<rparr>;
          (names, err) = GetClusterNames env ctx
      in if err \<noteq> None then results\<lparr>closed := True\<rparr>
         else results\<lparr>clusterNames := names\<rparr>)"

text \<open>
  One step of one goroutine or of the reader. The scheduler chooses which; the world
  chooses what a fetch that completes has met (the world and the state of the context at
  that time).
  \<^item> \<open>Launch\<close>: the launcher takes the next name, \<^verbatim>\<open>wg.Add(1)\<close>, starts a worker.
  \<^item> \<open>Complete i env ctx\<close>: \<^verbatim>\<open>GetCluster\<close> returns in worker \<open>i\<close>.
  \<^item> \<open>Send i\<close>: worker \<open>i\<close> puts its result into the buffer, if there is room (it
    blocks otherwise); a send on a closed channel panics.
  \<^item> \<open>Handoff i\<close>: worker \<open>i\<close> hands its result to the reader waiting at the empty channel.
  \<^item> \<open>WgDone i\<close>: the deferred \<^verbatim>\<open>wg.Done()\<close> of worker \<open>i\<close>; a negative counter panics.
  \<^item> \<open>Close\<close>: the loop is over and \<^verbatim>\<open>wg.Wait()\<close> returns as the counter is zero;
    the deferred \<^verbatim>\<open>close(results)\<close> runs.
  \<^item> \<open>Receive\<close>: the reader takes the first element of the buffer.
  \<open>None\<close> says that the step cannot be taken in the state.
\<close>

datatype event =
    Launch
  | Complete nat env Context
  | Send nat
  | Handoff nat
  | WgDone nat
  | Close
  | Receive

fun exec :: "event \<Rightarrow> fanout \<Rightarrow> fanout option" where
  "exec Launch s =
     (case clusterNames s of
        [] \<Rightarrow> None
      | name # rest \<Rightarrow>
          Some (s\<lparr>clusterNames := rest, wg := wg s + 1,
                  workers := workers s @ [Fetching name]\<rparr>))"
| "exec (Complete i env ctx) s =
     (if i < length (workers s) then
        (case workers s ! i of
           Fetching name \<Rightarrow>
             (let (cluster, err) = GetCluster env ctx name;
                  result = \<lparr>Cluster = cluster, Error = err\<rparr>
              in Some (s\<lparr>workers := (workers s)[i := Sending name result]\<rparr>))
         | _ \<Rightarrow> None)
      else None)"
| "exec (Send i) s =
     (if i < length (workers s) then
        (case workers s ! i of
           Sending name result \<Rightarrow>
             if closed s then Some (s\<lparr>panicked := True\<rparr>)
             else if length (buffer s) < capacity s then
               Some (s\<lparr>buffer := buffer s @ [result],
                       workers := (workers s)[i := Finishing name]\<rparr>)
             else None
         | _ \<Rightarrow> None)
      else None)"
| "exec (Handoff i) s =
     (if i < length (workers s) then
        (case workers s ! i of
           Sending name result \<Rightarrow>
             if \<not> closed s \<and> buffer s = [] then
               Some (s\<lparr>received := received s @ [result],
                       workers := (workers s)[i := Finishing name]\<rparr>)
             else None
         | _ \<Rightarrow> None)
      else None)"
| "exec (WgDone i) s =
     (if i < length (workers s) then
        (case workers s ! i of
           Finishing name \<Rightarrow>
             if wg s = 0 then Some (s\<lparr>panicked := True\<rparr>)
             else Some (s\<lparr>wg := wg s - 1, workers := (workers s)[i := Exited name]\<rparr>)
         | _ \<Rightarrow> None)
      else None)"
| "exec Close s =
     (if clusterNames s = [] \<and> wg s = 0 \<and> \<not> closed s then Some (s\<lparr>closed := True\<rparr>)
      else None)"
| "exec Receive s =
     (case buffer s of
        [] \<Rightarrow> None
      | result # rest \<Rightarrow> Some (s\<lparr>buffer := rest, received := received s @ [result]\<rparr>))"

text \<open>Nothing runs after a panic.\<close>

definition step :: "event \<Rightarrow> fanout \<Rightarrow> fanout option" where
  "step e s = (if panicked s then None else exec e s)"

text \<open>A schedule is a list of events; it runs from a state if each step can be taken.\<close>

fun run :: "event list \<Rightarrow> fanout \<Rightarrow> fanout option" where
  "run [] s = Some s"
| "run (e # es) s = (case step e s of None \<Rightarrow> None | Some s' \<Rightarrow> run es s')"

text \<open>The number of fetches in flight: the workers inside \<^verbatim>\<open>GetCluster\<close>.\<close>

definition inFlight :: "fanout \<Rightarrow> nat" where
  "inFlight s = length (filter isFetching (workers s))"

text \<open>The reader's loop over the channel ends when the channel is closed and empty.\<close>

definition drained :: "fanout \<Rightarrow> bool" where
  "drained s = (closed s \<and> buffer s = [])"

text \<open>
  The invariant of a result: exactly one of the cluster and the error is \<^verbatim>\<open>nil\<close>.
\<close>

definition exactlyOne :: "GetClusterResult \<Rightarrow> bool" where
  "exactlyOne result = ((Cluster result = None) \<noteq> (Error result = None))"



section \<open>The synchronous fetch of all clusters (GetClustersSync)\<close>

text \<open>
  The loop of lines 130-135 over the elements that the channel yields, the slice
  \<^verbatim>\<open>clusters\<close> being the accumulator: the first element with an error ends the call
  with \<^verbatim>\<open>nil\<close> and that error.
\<close>

fun syncLoop ::
  "Cluster option list \<Rightarrow> GetClusterResult list \<Rightarrow> Cluster option list \<times> error option" where
  "syncLoop clusters [] = (clusters, None)"
| "syncLoop clusters (result # rest) =
     (case Error result of
        Some err \<Rightarrow> ([], Some err)
      | None \<Rightarrow> syncLoop (clusters @ [Cluster result]) rest)"

text \<open>
  \<^verbatim>\<open>Client.GetClustersSync\<close>, lines 127-138, under a schedule of the goroutines and of
  its own receives. The call returns with an error as soon as it has received an element
  that carries one (what the schedule does after that is not seen by the call); it returns
  the clusters once the channel is closed and empty; under a schedule that brings neither
  it has not returned, which is \<open>None\<close>.
\<close>

definition GetClustersSync ::
  "env \<Rightarrow> Context \<Rightarrow> event list \<Rightarrow> (Cluster option list \<times> error option) option" where
  "GetClustersSync env ctx sched =
     (case run sched (GetClusters env ctx) of
        None \<Rightarrow> None
      | Some s \<Rightarrow>
          (case syncLoop [] (received s) of
             (clusters, Some err) \<Rightarrow> Some (clusters, Some err)
           | (clusters, None) \<Rightarrow> if drained s then Some (clusters, None) else None))"

section \<open>Worlds for the examples\<close>

text \<open>
  A world in which every URL parses and has no query, the body of the name list is a string
  of one-letter cluster names, and the body of a cluster status decodes unless it is
  \<open>''bad''\<close>; its transport is a parameter.
\<close>

definition testEnv :: "(request \<Rightarrow> error + response) \<Rightarrow> env" where
  "testEnv transport =
     \<lparr>resolve = (\<lambda>p. ''http://reaper:8080'' @ p),
      parseError = (\<lambda>u. None),
      queryOf = (\<lambda>u key. []),
      httpDo = transport,
      decodeNames = (\<lambda>body v. (None, map (\<lambda>c. [c]) body)),
      decodeStatus = (\<lambda>body v.
        if body = ''bad'' then (Some (DecodeError ''unexpected end of JSON input''), v)
        else (None, exampleStatus\<lparr>clusterStatus.Name := body\<rparr>)),
      NumCPU = 8\<rparr>"

text \<open>A transport that refuses every connection.\<close>

definition refuseAll :: "request \<Rightarrow> error + response" where
  "refuseAll req = Inl (TransportError ''connection refused'')"

text \<open>
  A service that lists the clusters named by \<open>names\<close> and answers every request for a
  cluster but the one for cluster \<open>b\<close>, which is refused.
\<close>

definition service :: "string \<Rightarrow> request \<Rightarrow> error + response" where
  "service names req =
     (if URL req = ''http://reaper:8080/cluster'' then Inr \<lparr>StatusCode = 200, Body = names\<rparr>
      else if URL req = ''http://reaper:8080/cluster/b''
        then Inl (TransportError ''connection refused'')
      else Inr \<lparr>StatusCode = 200, Body = ''status''\<rparr>)"

section \<open>The invariant of the concurrent fetch\<close>


text \<open>
  The results that a state holds: those received, those in the buffer, and those with which
  the workers stand at their send.
\<close>

fun sendsExactlyOne :: "worker \<Rightarrow> bool" where
  "sendsExactlyOne (Sending name result) = exactlyOne result"
| "sendsExactlyOne w = True"

definition resultsInv :: "fanout \<Rightarrow> bool" where
  "resultsInv s =
     (list_all exactlyOne (received s) \<and> list_all exactlyOne (buffer s) \<and>
      list_all sendsExactlyOne (workers s))"

section \<open>Schedules for the examples\<close>

text \<open>
  The service lists the clusters \<open>a\<close>, \<open>b\<close> and \<open>c\<close>. All three workers are started;
  the fetch of \<open>b\<close> fails first and its result is buffered; the fetches of \<open>a\<close> and
  \<open>c\<close> follow; the reader receives the three results; the channel is closed at the end.
\<close>

definition abcEnv :: env where
  "abcEnv = testEnv (service ''abc'')"

definition abcSchedule :: "event list" where
  "abcSchedule =
     [Launch, Launch, Launch,
      Complete 1 abcEnv None, Send 1, WgDone 1,
      Complete 0 abcEnv None, Send 0, Receive,
      Complete 2 abcEnv None, Send 2, WgDone 2, WgDone 0,
      Receive, Close, Receive]"



text \<open>The service lists six clusters, and the launcher starts the six workers.\<close>

definition sixEnv :: env where
  "sixEnv = testEnv (service ''acdefg'')"

definition sixSchedule :: "event list" where
  "sixSchedule = [Launch, Launch, Launch, Launch, Launch, Launch]"

text \<open>The two results that the fetches of the examples give.\<close>

definition fetched :: GetClusterResult where
  "fetched =
     \<lparr>Cluster = Some (newCluster (exampleStatus\<lparr>clusterStatus.Name := ''status''\<rparr>)),
      Error = None\<rparr>"

definition refused :: "string \<Rightarrow> GetClusterResult" where
  "refused name =
     \<lparr>Cluster = None,
      Error = Some (Errorf (''failed to get cluster ('' @ name @ '')'')
                (TransportError ''connection refused''))\<rparr>"

section \<open>Notions for the statements about failures\<close>


text \<open>
  What \<^verbatim>\<open>AddCluster\<close> returns for an answer of the transport (lines 155-166).
\<close>

definition transportOutcome :: "Context \<Rightarrow> error + response \<Rightarrow> error option" where
  "transportOutcome ctx answer =
     (case answer of
        Inl err \<Rightarrow> if ctx_Done ctx then ctx_Err ctx else Some err
      | Inr resp \<Rightarrow> None)"


section \<open>Properties of the topology translator\<close>

















section \<open>Properties of the concurrent fetch\<close>







lemma list_all_update: "list_all P ws \<Longrightarrow> P w \<Longrightarrow> list_all P (ws[i := w])"
  by (induction ws arbitrary: i) (auto split: nat.splits)








lemma GetClusters_no_names:
  "GetClusterNames env ctx = (names, Some err) \<Longrightarrow>
   GetClusters env ctx =
     \<lparr>clusterNames = [], workers = [], wg = 0, capacity = min 5 (NumCPU env), buffer = [],
      closed = True, received = [], panicked = False\<rparr>"
  by (simp add: GetClusters_def)






lemma GetCluster_exactlyOne:
  "GetCluster env ctx name = (cluster, err) \<Longrightarrow> exactlyOne \<lparr>Cluster = cluster, Error = err\<rparr>"
  by (auto simp: GetCluster_def do_def exactlyOne_def ctx_Done_def ctx_Err_def Let_def
      split: sum.splits option.splits prod.splits if_splits)

lemma exec_resultsInv:
  assumes "resultsInv s" and "exec e s = Some s'"
  shows "resultsInv s'"
proof (cases e)
  case (Complete i env ctx)
  with assms show ?thesis
    by (auto simp: resultsInv_def list_all_update GetCluster_exactlyOne
        split: if_splits worker.splits prod.splits)
next
  case (Send i)
  with assms(2) obtain name result where i: "i < length (workers s)"
    and w: "workers s ! i = Sending name result"
    by (auto split: if_splits worker.splits)
  with assms(1) have "exactlyOne result"
    by (auto simp: resultsInv_def list_all_length)
  with assms Send i w show ?thesis
    by (auto simp: resultsInv_def list_all_update split: if_splits)
next
  case (Handoff i)
  with assms(2) obtain name result where i: "i < length (workers s)"
    and w: "workers s ! i = Sending name result"
    by (auto split: if_splits worker.splits)
  with assms(1) have "exactlyOne result"
    by (auto simp: resultsInv_def list_all_length)
  with assms Handoff i w show ?thesis
    by (auto simp: resultsInv_def list_all_update split: if_splits)
next
  case (WgDone i)
  with assms show ?thesis
    by (auto simp: resultsInv_def list_all_update split: if_splits worker.splits)
qed (use assms in \<open>auto simp: resultsInv_def split: list.splits if_splits\<close>)

lemma run_resultsInv: "resultsInv s \<Longrightarrow> run sched s = Some s' \<Longrightarrow> resultsInv s'"
  by (induction sched arbitrary: s)
    (auto simp: step_def split: option.splits if_splits dest: exec_resultsInv)

lemma GetClusters_resultsInv: "resultsInv (GetClusters env ctx)"
  by (simp add: GetClusters_def resultsInv_def Let_def split: prod.splits)







lemma service_names:
  "GetClusterNames (testEnv (service names)) None = (map (\<lambda>c. [c]) names, None)"
  by (simp add: GetClusterNames_def http_NewRequest_def do_def testEnv_def service_def)

lemma service_init:
  "GetClusters (testEnv (service names)) None =
     \<lparr>clusterNames = map (\<lambda>c. [c]) names, workers = [], wg = 0, capacity = 5, buffer = [],
      closed = False, received = [], panicked = False\<rparr>"
  by (simp add: GetClusters_def service_names) (simp add: testEnv_def)

lemma service_fetch_b: "GetCluster (testEnv (service names)) None ''b'' = (None, Error (refused ''b''))"
  by (simp add: GetCluster_def http_NewRequest_def do_def testEnv_def service_def
      ctx_Done_def refused_def)

lemma service_fetch_a: "GetCluster (testEnv (service names)) None ''a'' = (Cluster fetched, None)"
  by (simp add: GetCluster_def http_NewRequest_def do_def testEnv_def service_def fetched_def)

lemma service_fetch_c: "GetCluster (testEnv (service names)) None ''c'' = (Cluster fetched, None)"
  by (simp add: GetCluster_def http_NewRequest_def do_def testEnv_def service_def fetched_def)

lemmas service_fetch = service_fetch_a service_fetch_b service_fetch_c

lemma abc_run:
  "run abcSchedule (GetClusters abcEnv None) =
     Some \<lparr>clusterNames = [], workers = [Exited ''a'', Exited ''b'', Exited ''c''], wg = 0,
           capacity = 5, buffer = [], closed = True,
           received = [refused ''b'', fetched, fetched], panicked = False\<rparr>"
  unfolding abcEnv_def abcSchedule_def service_init
  by (simp add: step_def service_fetch) (simp add: fetched_def refused_def)



text \<open>
  Claim C10. Every result that \<^verbatim>\<open>GetClusters\<close> puts on its channel, whether still in
  the buffer or already received, has exactly one of its two fields set: a cluster and no
  error, or an error and no cluster.
\<close>

theorem stream_results_exactly_one:
  assumes "run sched (GetClusters env ctx) = Some s"
  shows "list_all exactlyOne (received s) \<and> list_all exactlyOne (buffer s)"
  using run_resultsInv [OF GetClusters_resultsInv assms] by (simp add: resultsInv_def)

theorem stream_results_exactly_one_witness:
  "run abcSchedule (GetClusters abcEnv None) \<noteq> None \<and>
   map_option received (run abcSchedule (GetClusters abcEnv None)) =
     Some [refused ''b'', fetched, fetched] \<and>
   list_all exactlyOne [refused ''b'', fetched, fetched]"
  using stream_results_exactly_one [OF abc_run] by (simp add: abc_run)

lemma no_step_when_done:
  assumes "clusterNames s = []" and "workers s = []" and "buffer s = []" and "closed s"
  shows "step e s = None"
  using assms by (cases e) (simp_all add: step_def)

lemma run_when_done:
  assumes "clusterNames s = []" and "workers s = []" and "buffer s = []" and "closed s"
    and "run sched s = Some s'"
  shows "sched = [] \<and> s' = s"
  using assms by (cases sched) (simp_all add: no_step_when_done)

text \<open>
  Claim C6. When the name listing fails, the channel that \<^verbatim>\<open>GetClusters\<close> returns is
  closed and empty, no goroutine runs, and no schedule ever brings an element to the channel
  or to its reader: the failure of the listing is not delivered.
\<close>

theorem listing_failure_gives_empty_closed_stream:
  assumes "GetClusterNames env ctx = (names, Some err)"
  shows "closed (GetClusters env ctx) \<and> buffer (GetClusters env ctx) = [] \<and>
         received (GetClusters env ctx) = [] \<and>
         (\<forall>sched s. run sched (GetClusters env ctx) = Some s \<longrightarrow>
            closed s \<and> buffer s = [] \<and> received s = [] \<and> workers s = [])"
proof -
  have init: "GetClusters env ctx =
     \<lparr>clusterNames = [], workers = [], wg = 0, capacity = min 5 (NumCPU env), buffer = [],
      closed = True, received = [], panicked = False\<rparr>"
    using assms by (rule GetClusters_no_names)
  have 0: "clusterNames (GetClusters env ctx) = []" "workers (GetClusters env ctx) = []"
    "buffer (GetClusters env ctx) = []" "closed (GetClusters env ctx)"
    "received (GetClusters env ctx) = []"
    by (simp_all add: init)
  have "s = GetClusters env ctx" if "run sched (GetClusters env ctx) = Some s" for sched s
    using run_when_done [OF 0(1-4) that] by simp
  with 0 show ?thesis
    by blast
qed

lemma refuseAll_names:
  "GetClusterNames (testEnv refuseAll) None =
     ([], Some (Errorf ''failed to get cluster names'' (TransportError ''connection refused'')))"
  by (simp add: GetClusterNames_def http_NewRequest_def do_def testEnv_def refuseAll_def
      ctx_Done_def)

theorem listing_failure_gives_empty_closed_stream_witness:
  "snd (GetClusterNames (testEnv refuseAll) None) =
     Some (Errorf ''failed to get cluster names'' (TransportError ''connection refused'')) \<and>
   closed (GetClusters (testEnv refuseAll) None) \<and>
   buffer (GetClusters (testEnv refuseAll) None) = [] \<and>
   received (GetClusters (testEnv refuseAll) None) = [] \<and>
   run [Receive] (GetClusters (testEnv refuseAll) None) = None"
proof -
  have "run [Receive] (GetClusters (testEnv refuseAll) None) = None"
    by (simp add: GetClusters_no_names [OF refuseAll_names] step_def)
  with listing_failure_gives_empty_closed_stream [OF refuseAll_names] show ?thesis
    by (simp add: refuseAll_names)
qed

text \<open>
  Claim C3, at an input where the code breaks it. With eight CPUs the width is 5, and the
  code uses it only as the capacity of the channel; with six cluster names the launcher
  starts six workers before any fetch returns, and six fetches are in flight.
\<close>

theorem in_flight_exceeds_width:
  "min 5 (NumCPU sixEnv) = 5 \<and>
   capacity (GetClusters sixEnv None) = 5 \<and>
   fst (GetClusterNames sixEnv None) = [''a'', ''c'', ''d'', ''e'', ''f'', ''g''] \<and>
   map_option inFlight (run sixSchedule (GetClusters sixEnv None)) = Some 6"
  unfolding sixEnv_def sixSchedule_def service_init service_names
  by (simp add: step_def inFlight_def) (simp add: testEnv_def)

text \<open>
  Claim C4, at an input where the code breaks it. When the transport refuses the request
  for the name list, \<^verbatim>\<open>GetClusterNames\<close> fails, and \<^verbatim>\<open>GetClustersSync\<close>
  returns the empty list of clusters and no error.
\<close>

theorem sync_listing_failure_is_empty_success:
  "GetClusterNames (testEnv refuseAll) None =
     ([], Some (Errorf ''failed to get cluster names'' (TransportError ''connection refused''))) \<and>
   GetClustersSync (testEnv refuseAll) None [] = Some ([], None)"
  by (simp add: refuseAll_names GetClustersSync_def GetClusters_no_names [OF refuseAll_names]
      drained_def)

section \<open>Properties of the synchronous fetch\<close>








section \<open>Properties of the transport adapter and the single-resource operations\<close>

lemma testEnv_simps:
  "resolve (testEnv t) p = ''http://reaper:8080'' @ p"
  "httpDo (testEnv t) = t"
  "http_NewRequest (testEnv t) m u =
     Inr \<lparr>Method = m, URL = u, Query = (\<lambda>key. []), Header = Map.empty\<rparr>"
  by (simp_all add: testEnv_def http_NewRequest_def)

lemma refuseAll_AddCluster_request:
  "AddCluster_request (testEnv refuseAll) cluster seed =
     Inr \<lparr>Method = ''PUT'', URL = ''http://reaper:8080/cluster/'' @ cluster,
          Query = (\<lambda>key. []) (''seedHost'' := [seed]),
          Header = [''Accept'' \<mapsto> ''application/json'']\<rparr>"
  by (simp add: AddCluster_request_def http_NewRequest_def testEnv_def Values_Add_def)

text \<open>
  Claim C7. When the cancellation signal has fired, \<^verbatim>\<open>ctx.Err()\<close> is not
  \<^verbatim>\<open>nil\<close>, and a transport call that fails makes \<^verbatim>\<open>do\<close>, and likewise
  \<^verbatim>\<open>AddCluster\<close>, return \<^verbatim>\<open>ctx.Err()\<close> itself and not the error of the
  transport; the three operations that call \<^verbatim>\<open>do\<close> then return an error that wraps
  \<^verbatim>\<open>ctx.Err()\<close>.
\<close>

theorem cancelled_takes_priority:
  assumes "ctx_Done ctx"
  shows "ctx_Err ctx \<noteq> None \<and>
    (httpDo env (req\<lparr>Header := (Header req)(''Accept'' \<mapsto> ''application/json'')\<rparr>) = Inl err \<longrightarrow>
       fst (do env ctx req decode v) = (None, ctx_Err ctx)) \<and>
    (AddCluster_request env cluster seed = Inr req' \<and> httpDo env req' = Inl err' \<longrightarrow>
       AddCluster env ctx cluster seed = ctx_Err ctx) \<and>
    (http_NewRequest env ''GET'' (resolve env ''/cluster'') = Inr r1 \<and>
     httpDo env (r1\<lparr>Header := (Header r1)(''Accept'' \<mapsto> ''application/json'')\<rparr>) = Inl e1 \<longrightarrow>
       map_option Unwrap (snd (GetClusterNames env ctx)) = Some (ctx_Err ctx)) \<and>
    (http_NewRequest env ''GET'' (resolve env (''/cluster/'' @ name)) = Inr r2 \<and>
     httpDo env (r2\<lparr>Header := (Header r2)(''Accept'' \<mapsto> ''application/json'')\<rparr>) = Inl e2 \<longrightarrow>
       map_option Unwrap (snd (GetCluster env ctx name)) = Some (ctx_Err ctx)) \<and>
    (http_NewRequest env ''DELETE'' (resolve env (''/cluster/'' @ name)) = Inr r3 \<and>
     httpDo env (r3\<lparr>Header := (Header r3)(''Accept'' \<mapsto> ''application/json'')\<rparr>) = Inl e3 \<longrightarrow>
       map_option Unwrap (DeleteCluster env ctx name) = Some (ctx_Err ctx))"
  using assms
  by (auto simp: do_def AddCluster_def GetClusterNames_def GetCluster_def DeleteCluster_def
      ctx_Done_def ctx_Err_def)

theorem cancelled_takes_priority_witness:
  "ctx_Done (Some Canceled) \<and>
   httpDo (testEnv refuseAll)
     \<lparr>Method = ''GET'', URL = ''http://reaper:8080/cluster'', Query = (\<lambda>key. []),
      Header = [''Accept'' \<mapsto> ''application/json'']\<rparr> =
     Inl (TransportError ''connection refused'') \<and>
   fst (do (testEnv refuseAll) (Some Canceled)
     \<lparr>Method = ''GET'', URL = ''http://reaper:8080/cluster'', Query = (\<lambda>key. []),
      Header = Map.empty\<rparr> (Some (decodeNames (testEnv refuseAll))) []) =
     (None, Some Canceled) \<and>
   AddCluster (testEnv refuseAll) (Some Canceled) ''test'' ''10.0.0.1'' = Some Canceled \<and>
   map_option Unwrap (snd (GetCluster (testEnv refuseAll) (Some Canceled) ''test'')) =
     Some (Some Canceled)"
proof -
  have d: "ctx_Done (Some Canceled)"
    by (simp add: ctx_Done_def)
  have t: "httpDo (testEnv refuseAll) r = Inl (TransportError ''connection refused'')" for r
    by (simp add: testEnv_simps refuseAll_def)
  from cancelled_takes_priority [OF d, where env = "testEnv refuseAll"
      and req = "\<lparr>Method = ''GET'', URL = ''http://reaper:8080/cluster'', Query = (\<lambda>key. []),
        Header = Map.empty\<rparr>"
      and err = "TransportError ''connection refused''"
      and decode = "Some (decodeNames (testEnv refuseAll))" and v = "[]"
      and cluster = "''test''" and seed = "''10.0.0.1''"
      and err' = "TransportError ''connection refused''"
      and name = "''test''"
      and ?r2.0 = "\<lparr>Method = ''GET'', URL = ''http://reaper:8080/cluster/test'',
        Query = (\<lambda>key. []), Header = Map.empty\<rparr>"
      and ?e2.0 = "TransportError ''connection refused''"]
  show ?thesis
    by (simp add: d t refuseAll_AddCluster_request ctx_Err_def testEnv_simps refuseAll_def)
qed







lemma AddCluster_request_any_seed:
  assumes "http_NewRequest env ''PUT'' (resolve env (''/cluster/'' @ cluster)) = Inr req0"
  shows "\<exists>req. AddCluster_request env cluster seed = Inr req \<and> Method req = ''PUT'' \<and>
           URL req = resolve env (''/cluster/'' @ cluster) \<and>
           Query req ''seedHost'' = Query req0 ''seedHost'' @ [seed] \<and>
           Header req ''Accept'' = Some ''application/json'' \<and>
           AddCluster env ctx cluster seed = transportOutcome ctx (httpDo env req)"
proof -
  let ?req = "req0\<lparr>Header := (Header req0)(''Accept'' \<mapsto> ''application/json''),
    Query := Values_Add (Query req0) ''seedHost'' seed\<rparr>"
  have r: "AddCluster_request env cluster seed = Inr ?req"
    using assms by (simp add: AddCluster_request_def Let_def)
  have m: "Method req0 = ''PUT''" and u: "URL req0 = resolve env (''/cluster/'' @ cluster)"
    using assms by (auto simp: http_NewRequest_def split: option.splits)
  have "AddCluster env ctx cluster seed = transportOutcome ctx (httpDo env ?req)"
    by (simp add: AddCluster_def r transportOutcome_def)
  with r m u show ?thesis
    by (simp add: Values_Add_def)
qed

text \<open>
  Claim C9. When the request can be constructed, \<^verbatim>\<open>AddCluster\<close> with the empty seed
  sends a PUT request for the cluster whose query has the empty string as the value added
  for \<^verbatim>\<open>seedHost\<close>, and returns what the answer of the transport decides; for every
  other seed it does the same with that seed. No seed is rejected by the client.
\<close>

theorem AddCluster_accepts_empty_seed:
  assumes "http_NewRequest env ''PUT'' (resolve env (''/cluster/'' @ cluster)) = Inr req0"
  shows "(\<exists>req. AddCluster_request env cluster [] = Inr req \<and> Method req = ''PUT'' \<and>
            URL req = resolve env (''/cluster/'' @ cluster) \<and>
            Query req ''seedHost'' = Query req0 ''seedHost'' @ [[]] \<and>
            Header req ''Accept'' = Some ''application/json'' \<and>
            AddCluster env ctx cluster [] = transportOutcome ctx (httpDo env req)) \<and>
         (\<forall>seed. \<exists>req. AddCluster_request env cluster seed = Inr req \<and>
            Query req ''seedHost'' = Query req0 ''seedHost'' @ [seed] \<and>
            AddCluster env ctx cluster seed = transportOutcome ctx (httpDo env req))"
  using AddCluster_request_any_seed [OF assms] by blast

theorem AddCluster_accepts_empty_seed_witness:
  "http_NewRequest abcEnv ''PUT'' (resolve abcEnv ''/cluster/test'') =
     Inr \<lparr>Method = ''PUT'', URL = ''http://reaper:8080/cluster/test'', Query = (\<lambda>key. []),
          Header = Map.empty\<rparr> \<and>
   (\<exists>req. AddCluster_request abcEnv ''test'' [] = Inr req \<and> Method req = ''PUT'' \<and>
      Query req ''seedHost'' = [[]]) \<and>
   AddCluster abcEnv None ''test'' [] = None \<and>
   AddCluster abcEnv None ''test'' ''10.0.0.1'' = None"
proof -
  have req0: "http_NewRequest abcEnv ''PUT'' (resolve abcEnv (''/cluster/'' @ ''test'')) =
     Inr \<lparr>Method = ''PUT'', URL = ''http://reaper:8080/cluster/test'', Query = (\<lambda>key. []),
          Header = Map.empty\<rparr>"
    by (simp add: abcEnv_def testEnv_simps)
  have ok: "httpDo abcEnv req \<noteq> Inl e" if "URL req = ''http://reaper:8080/cluster/test''"
    for req e
    using that by (simp add: abcEnv_def testEnv_simps service_def)
  have "AddCluster abcEnv None ''test'' seed = None" for seed
  proof -
    from AddCluster_request_any_seed [OF req0, of seed None]
    obtain req where "URL req = resolve abcEnv (''/cluster/'' @ ''test'')"
      and a: "AddCluster abcEnv None ''test'' seed = transportOutcome None (httpDo abcEnv req)"
      by blast
    then have "URL req = ''http://reaper:8080/cluster/test''"
      by (simp add: abcEnv_def testEnv_simps)
    with ok [of req] a show ?thesis
      by (simp add: transportOutcome_def split: sum.splits)
  qed
  with AddCluster_accepts_empty_seed [OF req0, of None] req0 show ?thesis
    by auto
qed

end
